theory Spec2Isabelle
  imports Main "HOL-Library.Word" "HOL-Library.Signed_Division"
begin

section \<open>Data model of \<open>scene/camera.go\<close>\<close>

text \<open>
  Go's \<open>int32\<close> is a 32-bit word read with \<open>sint\<close>. A \<open>float32\<close> is carried as its
  IEEE-754 bit pattern: the functions modelled here store and pass such values but never
  compute with them. \<open>mgl32.Mat4\<close> is \<open>[16]float32\<close>, column-major, so the translation
  of a transform sits at indices 12, 13 and 14.
\<close>

type_synonym int32 = "32 word"
type_synonym float32 = "32 word"
type_synonym Mat4 = "float32 list"
type_synonym Color = "float32 \<times> float32 \<times> float32 \<times> float32"
type_synonym Resolution = "int32 \<times> int32"
type_synonym error = string

definition f32_zero :: float32 where
  "f32_zero = 0"

definition f32_one :: float32 where
  "f32_one = 0x3F800000"

datatype RenderPath = RenderPathForward | RenderPathDeferred

datatype CameraTexture =
    CameraTextureLDR0
  | CameraTextureLDR1
  | CameraTextureHDR0
  | CameraTextureHDR1
  | CameraTextureDepth
  | CameraTextureNormals

datatype CameraShader =
    CameraShaderCopy
  | CameraShaderDeferred
  | CameraShaderNormals
  | CameraShaderSkybox

datatype CameraMesh = CameraMeshEffect | CameraMeshGBuffer | CameraMeshSkybox

datatype ClearMode = ClearModeSkybox | ClearModeColor | ClearModeDepth | ClearModeNothing

text \<open>
  Modelled from the spec: the declaration of \<open>EffectType\<close> is not among the source files;
  the camera compares it with the three constants below (spec section 3: an effect's
  domain type is HDR, LDR or Tonemapper).
\<close>

datatype EffectType = EffectTypeHDR | EffectTypeLDR | EffectTypeTonemapper

text \<open>
  Modelled from the spec: \<open>Effect\<close> is an interface declared outside the source files. The
  camera calls \<open>Type()\<close> and \<open>Render(c)\<close>; by spec section 4.5 the render operation calls
  the camera's sub-pass operation any number of times (zero or more), which is the field
  \<open>subPasses\<close>.
\<close>

record Effect =
  effectType :: EffectType
  subPasses :: nat

text \<open>
  A scene component either passes the type assertion \<open>components[i].(Drawable)\<close> or it
  does not. A drawable is identified by a handle and answers \<open>SupportsDeferred()\<close>.
\<close>

record Drawable =
  drawableHandle :: nat
  SupportsDeferred :: bool

datatype Component = DrawableComponent Drawable | OtherComponent nat

record Skybox =
  Specular :: nat
  Irradiance :: nat

subsection \<open>The graphics context\<close>

text \<open>
  The camera drives OpenGL through the \<open>gl\<close> and \<open>graphics\<close> packages. The part of the
  context that the modelled functions touch is kept as a record; every clear and every
  draw is appended to \<open>calls\<close> together with the bindings in force when it was issued.
  Only texture unit \<open>gl.TEXTURE0\<close> is used by the modelled functions.
\<close>

datatype Attachment =
    COLOR_ATTACHMENT0
  | COLOR_ATTACHMENT1
  | COLOR_ATTACHMENT2
  | COLOR_ATTACHMENT3
  | COLOR_ATTACHMENT4
  | DEPTH_ATTACHMENT

datatype BufferBit = COLOR_BUFFER_BIT | DEPTH_BUFFER_BIT

datatype Texture = Texture2D CameraTexture | Cubemap nat

datatype GLCall =
    ClearAll (clearTargets: "Attachment list") (clearedWith: Color)
  | ClearFlags (clearBits: "BufferBit list") (clearTargets: "Attachment list") (clearedWith: Color)
  | Draw (drawMesh: CameraMesh) (readTexture: "Texture option") (targets: "Attachment list")
      (drawShader: "CameraShader option") (drawUniforms: "string \<rightharpoonup> Mat4")

record GLState =
  activeTexture0 :: "Texture option"
  drawBuffers :: "Attachment list"
  boundShader :: "CameraShader option"
  boundMesh :: "CameraMesh option"
  uniforms :: "CameraShader \<Rightarrow> string \<rightharpoonup> Mat4"
  subroutine :: "CameraShader \<rightharpoonup> string"
  glClearColor :: Color
  depthMask :: bool
  depthTest :: bool
  calls :: "GLCall list"

definition ActivateTexture :: "Texture \<Rightarrow> GLState \<Rightarrow> GLState" where
  "ActivateTexture t g = g\<lparr>activeTexture0 := Some t\<rparr>"

definition ApplyDrawBuffers :: "Attachment list \<Rightarrow> GLState \<Rightarrow> GLState" where
  "ApplyDrawBuffers bufs g = g\<lparr>drawBuffers := bufs\<rparr>"

definition ClearColor :: "Color \<Rightarrow> GLState \<Rightarrow> GLState" where
  "ClearColor col g = g\<lparr>glClearColor := col\<rparr>"

definition ClearBuffers :: "GLState \<Rightarrow> GLState" where
  "ClearBuffers g = g\<lparr>calls := calls g @ [ClearAll (drawBuffers g) (glClearColor g)]\<rparr>"

definition ClearBufferFlags :: "BufferBit list \<Rightarrow> GLState \<Rightarrow> GLState" where
  "ClearBufferFlags bits g =
     g\<lparr>calls := calls g @ [ClearFlags bits (drawBuffers g) (glClearColor g)]\<rparr>"

definition ShaderBind :: "CameraShader \<Rightarrow> GLState \<Rightarrow> GLState" where
  "ShaderBind s g = g\<lparr>boundShader := Some s\<rparr>"

definition ShaderUnbind :: "CameraShader \<Rightarrow> GLState \<Rightarrow> GLState" where
  "ShaderUnbind s g = g\<lparr>boundShader := None\<rparr>"

definition SetSubroutine :: "CameraShader \<Rightarrow> string \<Rightarrow> GLState \<Rightarrow> GLState" where
  "SetSubroutine s name g = g\<lparr>subroutine := (subroutine g)(s \<mapsto> name)\<rparr>"

definition SetUniform :: "CameraShader \<Rightarrow> string \<Rightarrow> Mat4 \<Rightarrow> GLState \<Rightarrow> GLState" where
  "SetUniform s name m g = g\<lparr>uniforms := (uniforms g)(s := (uniforms g s)(name \<mapsto> m))\<rparr>"

definition MeshBind :: "CameraMesh \<Rightarrow> GLState \<Rightarrow> GLState" where
  "MeshBind m g = g\<lparr>boundMesh := Some m\<rparr>"

definition MeshUnbind :: "CameraMesh \<Rightarrow> GLState \<Rightarrow> GLState" where
  "MeshUnbind m g = g\<lparr>boundMesh := None\<rparr>"

definition MeshDraw :: "CameraMesh \<Rightarrow> GLState \<Rightarrow> GLState" where
  "MeshDraw m g =
     g\<lparr>calls := calls g @
        [Draw m (activeTexture0 g) (drawBuffers g) (boundShader g)
           (case boundShader g of None \<Rightarrow> Map.empty | Some s \<Rightarrow> uniforms g s)]\<rparr>"

definition DepthMask :: "bool \<Rightarrow> GLState \<Rightarrow> GLState" where
  "DepthMask b g = g\<lparr>depthMask := b\<rparr>"

definition EnableDepthTest :: "GLState \<Rightarrow> GLState" where
  "EnableDepthTest g = g\<lparr>depthTest := True\<rparr>"

definition DisableDepthTest :: "GLState \<Rightarrow> GLState" where
  "DisableDepthTest g = g\<lparr>depthTest := False\<rparr>"

subsection \<open>The camera\<close>

datatype TextureFormat =
    TextureFormatDefaultColor
  | TextureFormatDefaultDepth
  | TextureFormatRGBA16
  | TextureFormatDefaultHDRColor

datatype ShaderAsset = ShaderUtilsCopy | ShaderUtilsSkybox | DefaultShader

datatype MeshAsset = MeshQuad | MeshQuadBack

record Texture2DObject =
  textureSize :: Resolution
  textureFormat :: TextureFormat
  textureAllocated :: bool

record Framebuffer =
  framebufferSize :: Resolution
  attachments :: "Attachment \<rightharpoonup> CameraTexture"
  framebufferAllocated :: bool

record GBuffer =
  gbufferSize :: Resolution
  gbufferDepth :: "CameraTexture option"
  gbufferHDR :: bool
  gbufferAllocated :: bool

text \<open>
  The fields of the \<open>Camera\<close> struct, in its order, without the embedded
  \<open>BaseScriptComponent\<close>. Two more fields stand for what lives outside the struct:
  \<open>gl\<close>, the graphics context, and \<open>effectRenders\<close>, the list of the calls made to
  \<open>Effect.Render\<close>. \<open>RenderPath\<close>, \<open>ClearMode\<close> and the other enumerations are
  integer types in Go; the datatypes hold their declared constants. The textures, shaders
  and meshes that the render functions use are those that \<open>setupPipeline\<close> installs.
\<close>

record Camera =
  textures :: "CameraTexture \<rightharpoonup> Texture2DObject"
  shaders :: "CameraShader \<rightharpoonup> ShaderAsset"
  meshes :: "CameraMesh \<rightharpoonup> MeshAsset"
  effects :: "Effect list"
  deferredCache :: "Drawable list"
  forwardCache :: "Drawable list"
  framebuffer :: "Framebuffer option"
  gbuffer :: "GBuffer option"
  projectionMatrix :: Mat4
  viewMatrix :: Mat4
  normalMatrix :: "float32 list"
  clearColor :: Color
  clearMode :: ClearMode
  renderPath :: RenderPath
  activeRenderPath :: RenderPath
  aspectRatio :: float32
  fov :: float32
  nearClip :: float32
  farClip :: float32
  effectPass :: int32
  effectActiveType :: EffectType
  hdr :: bool
  orthographic :: bool
  effectRenders :: "(Effect \<times> EffectType) list"
  gl :: GLState

text \<open>A run of calls into the graphics context, issued by the camera in the given order.\<close>

definition glCalls :: "(GLState \<Rightarrow> GLState) list \<Rightarrow> Camera \<Rightarrow> Camera" where
  "glCalls fs c = c\<lparr>gl := fold (\<lambda>f. f) fs (gl c)\<rparr>"

section \<open>Background clear\<close>

text \<open>
  \<open>clearBackground\<close>, lines 144-174. The skybox is what
  \<open>c.GameObject().Environment().Skybox\<close> returns, \<open>None\<close> for \<open>nil\<close>.
\<close>

definition clearBackground :: "Skybox option \<Rightarrow> Camera \<Rightarrow> Camera" where
  "clearBackground skybox c =
     (if clearMode c = ClearModeNothing then c
      else if clearMode c = ClearModeDepth then
        glCalls [ClearBufferFlags [DEPTH_BUFFER_BIT]] c
      else if clearMode c = ClearModeColor then
        glCalls
          [ClearColor (clearColor c),
           ClearBuffers,
           ClearColor (f32_zero, f32_zero, f32_zero, f32_one)] c
      else if clearMode c = ClearModeSkybox then
        (let c = glCalls [ClearBuffers] c in
         case skybox of
           None \<Rightarrow> c
         | Some sb \<Rightarrow>
             glCalls
               [MeshBind CameraMeshSkybox,
                ShaderBind CameraShaderSkybox,
                ActivateTexture (Cubemap (Specular sb)),
                SetUniform CameraShaderSkybox ''v_view_matrix'' (viewMatrix c),
                SetUniform CameraShaderSkybox ''v_projection_matrix'' (projectionMatrix c),
                MeshDraw CameraMeshSkybox,
                ShaderUnbind CameraShaderSkybox,
                MeshUnbind CameraMeshSkybox] c)
      else c)"

section \<open>Drawable classification cache\<close>

text \<open>
  \<open>OnSceneGraphUpdate\<close>, lines 256-281. The component list is what
  \<open>c.GameObject().Scene().Components()\<close> returns. The first loop keeps the components
  that pass the type assertion, the second one appends each drawable to one of the caches.
\<close>

fun collectDrawables :: "Component list \<Rightarrow> Drawable list \<Rightarrow> Drawable list" where
  "collectDrawables [] drawables = drawables"
| "collectDrawables (DrawableComponent r # components) drawables =
     collectDrawables components (drawables @ [r])"
| "collectDrawables (OtherComponent _ # components) drawables =
     collectDrawables components drawables"

fun classifyDrawables :: "Drawable list \<Rightarrow> Camera \<Rightarrow> Camera" where
  "classifyDrawables [] c = c"
| "classifyDrawables (d # drawables) c =
     classifyDrawables drawables
       (if SupportsDeferred d then c\<lparr>deferredCache := deferredCache c @ [d]\<rparr>
        else c\<lparr>forwardCache := forwardCache c @ [d]\<rparr>)"

definition OnSceneGraphUpdate :: "Component list \<Rightarrow> Camera \<Rightarrow> Camera" where
  "OnSceneGraphUpdate components c =
     (let c = c\<lparr>deferredCache := take 0 (deferredCache c)\<rparr>;
          c = c\<lparr>forwardCache := take 0 (forwardCache c)\<rparr>;
          drawables = collectDrawables components []
      in case renderPath c of
           RenderPathForward \<Rightarrow> c\<lparr>forwardCache := drawables\<rparr>
         | RenderPathDeferred \<Rightarrow> classifyDrawables drawables c)"

section \<open>Pipeline set-up\<close>

text \<open>
  \<open>setupPipeline\<close>, lines 283-336. Whether the GPU allocations of the framebuffer and
  of the G-buffer succeed is decided outside the program, so the two results of
  \<open>Alloc()\<close> are parameters. A panic is the left summand of the result. The results of
  the texture allocations are discarded by the source.
\<close>

record AllocResults =
  framebufferAlloc :: "error option"
  gbufferAlloc :: "error option"

definition framebufferAttachments :: "bool \<Rightarrow> Attachment \<rightharpoonup> CameraTexture" where
  "framebufferAttachments h =
     (let a = [COLOR_ATTACHMENT0 \<mapsto> CameraTextureLDR0,
               COLOR_ATTACHMENT2 \<mapsto> CameraTextureLDR1,
               COLOR_ATTACHMENT4 \<mapsto> CameraTextureNormals,
               DEPTH_ATTACHMENT \<mapsto> CameraTextureDepth]
      in if h then a(COLOR_ATTACHMENT1 \<mapsto> CameraTextureHDR0,
                     COLOR_ATTACHMENT3 \<mapsto> CameraTextureHDR1)
         else a)"

definition NewTexture2D :: "Resolution \<Rightarrow> TextureFormat \<Rightarrow> Texture2DObject" where
  "NewTexture2D sz fmt = \<lparr>textureSize = sz, textureFormat = fmt, textureAllocated = False\<rparr>"

definition setupPipeline :: "Resolution \<Rightarrow> AllocResults \<Rightarrow> Camera \<Rightarrow> error + Camera" where
  "setupPipeline sz res c =
     (let c = c\<lparr>framebuffer :=
                  Some \<lparr>framebufferSize = sz, attachments = Map.empty,
                        framebufferAllocated = False\<rparr>\<rparr>;
          c = c\<lparr>meshes := (meshes c)(CameraMeshEffect \<mapsto> MeshQuad,
                                        CameraMeshSkybox \<mapsto> MeshQuadBack)\<rparr>;
          c = c\<lparr>shaders := (shaders c)(CameraShaderCopy \<mapsto> ShaderUtilsCopy,
                                          CameraShaderSkybox \<mapsto> ShaderUtilsSkybox,
                                          CameraShaderNormals \<mapsto> ShaderUtilsCopy)\<rparr>;
          c = c\<lparr>textures := (textures c)
                 (CameraTextureLDR0 \<mapsto> NewTexture2D sz TextureFormatDefaultColor,
                  CameraTextureLDR1 \<mapsto> NewTexture2D sz TextureFormatDefaultColor,
                  CameraTextureDepth \<mapsto> NewTexture2D sz TextureFormatDefaultDepth,
                  CameraTextureNormals \<mapsto> NewTexture2D sz TextureFormatRGBA16)\<rparr>;
          c = (if hdr c then
                 c\<lparr>textures := (textures c)
                    (CameraTextureHDR0 \<mapsto> NewTexture2D sz TextureFormatDefaultHDRColor,
                     CameraTextureHDR1 \<mapsto> NewTexture2D sz TextureFormatDefaultHDRColor)\<rparr>
               else c);
          c = c\<lparr>textures :=
                  map_option (\<lambda>t. t\<lparr>textureAllocated := True\<rparr>) \<circ> textures c\<rparr>;
          c = c\<lparr>framebuffer :=
                  map_option (\<lambda>f. f\<lparr>attachments := framebufferAttachments (hdr c)\<rparr>)
                    (framebuffer c)\<rparr>
      in case framebufferAlloc res of
           Some err \<Rightarrow> Inl err
         | None \<Rightarrow>
             (let c = c\<lparr>framebuffer :=
                          map_option (\<lambda>f. f\<lparr>framebufferAllocated := True\<rparr>)
                            (framebuffer c)\<rparr>
              in if renderPath c = RenderPathDeferred then
                   (let c = c\<lparr>meshes := (meshes c)(CameraMeshGBuffer \<mapsto> MeshQuad)\<rparr>;
                        c = c\<lparr>shaders := (shaders c)(CameraShaderDeferred \<mapsto> DefaultShader)\<rparr>;
                        depthAttachment = framebufferAttachments (hdr c) DEPTH_ATTACHMENT;
                        c = c\<lparr>gbuffer :=
                                Some \<lparr>gbufferSize = sz, gbufferDepth = depthAttachment,
                                      gbufferHDR = hdr c, gbufferAllocated = False\<rparr>\<rparr>
                    in case gbufferAlloc res of
                         Some err \<Rightarrow> Inl err
                       | None \<Rightarrow>
                           Inr (c\<lparr>gbuffer :=
                                    map_option (\<lambda>g. g\<lparr>gbufferAllocated := True\<rparr>)
                                      (gbuffer c)\<rparr>))
                 else Inr c))"

section \<open>Effect chain\<close>

text \<open>
  \<open>EffectPass\<close>, lines 459-484. Go's \<open>%\<close> truncates towards zero, which is \<open>smod\<close> on
  the signed value of the counter; \<open>c.effectPass++\<close> wraps around.
\<close>

definition EffectPass :: "Camera \<Rightarrow> Camera" where
  "EffectPass c =
     (let c =
        (if effectActiveType c = EffectTypeHDR then
           (if sint (effectPass c) smod 2 = 1 then
              glCalls
                [ActivateTexture (Texture2D CameraTextureHDR1),
                 ApplyDrawBuffers [COLOR_ATTACHMENT1]] c
            else
              glCalls
                [ActivateTexture (Texture2D CameraTextureHDR0),
                 ApplyDrawBuffers [COLOR_ATTACHMENT3]] c)
         else if effectActiveType c = EffectTypeLDR then
           (if sint (effectPass c) smod 2 = 1 then
              glCalls
                [ActivateTexture (Texture2D CameraTextureLDR1),
                 ApplyDrawBuffers [COLOR_ATTACHMENT0]] c
            else
              glCalls
                [ActivateTexture (Texture2D CameraTextureLDR0),
                 ApplyDrawBuffers [COLOR_ATTACHMENT2]] c)
         else c);
          c = glCalls
                [MeshBind CameraMeshEffect,
                 MeshDraw CameraMeshEffect,
                 MeshUnbind CameraMeshEffect] c
      in c\<lparr>effectPass := effectPass c + 1\<rparr>)"

text \<open>\<open>startEffectPass\<close>, lines 486-493.\<close>

definition startEffectPass :: "Camera \<Rightarrow> Camera" where
  "startEffectPass c =
     (let c = c\<lparr>effectPass := 0\<rparr>
      in if effectActiveType c = EffectTypeTonemapper then
           glCalls
             [ActivateTexture (Texture2D CameraTextureHDR0),
              ApplyDrawBuffers [COLOR_ATTACHMENT0]] c
         else c)"

text \<open>\<open>endEffectPass\<close>, lines 495-523.\<close>

definition endEffectPass :: "Camera \<Rightarrow> Camera" where
  "endEffectPass c =
     (let c = (if hdr c then glCalls [ApplyDrawBuffers [COLOR_ATTACHMENT1]] c
               else glCalls [ApplyDrawBuffers [COLOR_ATTACHMENT0]] c)
      in if effectActiveType c = EffectTypeTonemapper then c
         else if sint (effectPass c) smod 2 = 1 then c
         else
           (let c = glCalls
                      [ShaderBind CameraShaderCopy,
                       SetSubroutine CameraShaderCopy ''pass_0''] c;
                c = (if effectActiveType c = EffectTypeHDR then
                       glCalls [ActivateTexture (Texture2D CameraTextureHDR1)] c
                     else glCalls [ActivateTexture (Texture2D CameraTextureLDR1)] c)
            in glCalls
                 [MeshBind CameraMeshEffect,
                  MeshDraw CameraMeshEffect,
                  MeshUnbind CameraMeshEffect,
                  ShaderUnbind CameraShaderCopy] c))"

text \<open>
  Modelled from the spec: \<open>Effect.Render\<close> is implemented outside the source files. The
  effect drives the camera's sub-pass operation \<open>subPasses\<close> times (spec section 4.5,
  step 2). The invocation is noted in \<open>effectRenders\<close> with the active effect type
  that the effect finds on the camera.
\<close>

definition Render :: "Effect \<Rightarrow> Camera \<Rightarrow> Camera" where
  "Render e c =
     (EffectPass ^^ subPasses e)
       (c\<lparr>effectRenders := effectRenders c @ [(e, effectActiveType c)]\<rparr>)"

text \<open>\<open>renderEffects\<close>, lines 418-457: the bodies of the two loops, then the loops.\<close>

definition renderEffectHDR :: "Effect \<Rightarrow> Camera \<Rightarrow> Camera" where
  "renderEffectHDR e c =
     (if effectType e = EffectTypeTonemapper then
        (let c = c\<lparr>effectActiveType := EffectTypeTonemapper\<rparr>;
             c = startEffectPass c;
             c = Render e c;
             c = endEffectPass c
         in c\<lparr>effectActiveType := EffectTypeLDR\<rparr>)
      else
        (let c = startEffectPass c;
             c = Render e c
         in endEffectPass c))"

definition renderEffectLDR :: "Effect \<Rightarrow> Camera \<Rightarrow> Camera" where
  "renderEffectLDR e c =
     (let c = startEffectPass c;
          c = Render e c
      in endEffectPass c)"

fun renderEffectsHDR :: "Effect list \<Rightarrow> Camera \<Rightarrow> Camera" where
  "renderEffectsHDR [] c = c"
| "renderEffectsHDR (e # es) c = renderEffectsHDR es (renderEffectHDR e c)"

fun renderEffectsLDR :: "Effect list \<Rightarrow> Camera \<Rightarrow> Camera" where
  "renderEffectsLDR [] c = c"
| "renderEffectsLDR (e # es) c = renderEffectsLDR es (renderEffectLDR e c)"

definition renderEffects :: "Camera \<Rightarrow> Camera" where
  "renderEffects c =
     (if length (effects c) = 0 then c
      else
        (let c = glCalls [DepthMask False, DisableDepthTest] c;
             c = (if hdr c then
                    renderEffectsHDR (effects c) (c\<lparr>effectActiveType := EffectTypeHDR\<rparr>)
                  else
                    renderEffectsLDR (effects c) (c\<lparr>effectActiveType := EffectTypeLDR\<rparr>))
         in glCalls [EnableDepthTest, DepthMask True] c))"

section \<open>Data model and operations of \<open>core/instance.go\<close>\<close>

text \<open>
  An object answers \<open>ID()\<close> and takes \<open>SetID\<close>; \<open>nil\<close> is \<open>None\<close>. The mutex is not
  modelled: the operations below are the bodies that run while it is held.
\<close>

record Object =
  objectID :: int32
  objectName :: string

record InstanceSystem =
  objects :: "int32 \<rightharpoonup> Object"
  nextField :: int32

datatype InstanceError = ErrMaxIDsExceeded | ErrAssignNilObject | ErrObjectAlreadyAssigned

definition MaxInt32 :: nat where
  "MaxInt32 = 2147483647"

text \<open>
  The loop of \<open>nextID\<close>, lines 173-176. The body declares a new \<open>id\<close> with \<open>:=\<close>, so
  the outer \<open>id\<close> is not assigned in the loop; only \<open>ok\<close> is. A run of the loop that
  never ends is the value \<open>None\<close>.
\<close>

partial_function (option) nextIDLoop :: "InstanceSystem \<Rightarrow> int32 \<Rightarrow> bool \<Rightarrow> int32 option" where
  "nextIDLoop s ident ok =
     (if ok then
        (let inner = nextField s + 1
         in nextIDLoop s ident (objects s inner \<noteq> None))
      else Some ident)"

text \<open>\<open>nextID\<close>, lines 164-181.\<close>

definition nextID :: "InstanceSystem \<Rightarrow> ((InstanceError + int32) \<times> InstanceSystem) option" where
  "nextID s =
     (if card (dom (objects s)) \<ge> MaxInt32 then Some (Inl ErrMaxIDsExceeded, s)
      else
        (let ident = nextField s + 1;
             ok = (objects s ident \<noteq> None)
         in case nextIDLoop s ident ok of
              None \<Rightarrow> None
            | Some ident \<Rightarrow> Some (Inr ident, s\<lparr>nextField := ident\<rparr>)))"

text \<open>
  \<open>Assign\<close>, lines 84-106. The object is held by reference, so the table entry shows the
  identifier set by \<open>SetID\<close>. The result carries the error, if any, and the object as it
  is after the call.
\<close>

definition Assign ::
  "Object option \<Rightarrow> InstanceSystem \<Rightarrow> ((InstanceError + Object) \<times> InstanceSystem) option" where
  "Assign object s =
     (case object of
        None \<Rightarrow> Some (Inl ErrAssignNilObject, s)
      | Some ob \<Rightarrow>
          if objectID ob \<noteq> 0 then Some (Inl ErrObjectAlreadyAssigned, s)
          else
            (case nextID s of
               None \<Rightarrow> None
             | Some (Inl err, s) \<Rightarrow> Some (Inl err, s)
             | Some (Inr ident, s) \<Rightarrow>
                 (let ob = ob\<lparr>objectID := ident\<rparr>
                  in Some (Inr ob, s\<lparr>objects := (objects s)(ident \<mapsto> ob)\<rparr>))))"

section \<open>Vocabulary of the properties\<close>

text \<open>
  The drawable-capable components of the scene, in scene order, written with the list
  library rather than as the loop of \<open>OnSceneGraphUpdate\<close>.
\<close>

definition sceneDrawables :: "Component list \<Rightarrow> Drawable list" where
  "sceneDrawables components = [r. DrawableComponent r \<leftarrow> components]"


text \<open>
  The two buffers of an effect domain and the framebuffer slots they are attached to
  (spec section 4.5): primary and secondary, for the HDR domain and for the LDR domain.
\<close>

definition primaryBuffer :: "EffectType \<Rightarrow> CameraTexture" where
  "primaryBuffer t = (if t = EffectTypeHDR then CameraTextureHDR0 else CameraTextureLDR0)"

definition secondaryBuffer :: "EffectType \<Rightarrow> CameraTexture" where
  "secondaryBuffer t = (if t = EffectTypeHDR then CameraTextureHDR1 else CameraTextureLDR1)"

definition primarySlot :: "EffectType \<Rightarrow> Attachment" where
  "primarySlot t = (if t = EffectTypeHDR then COLOR_ATTACHMENT1 else COLOR_ATTACHMENT0)"

definition secondarySlot :: "EffectType \<Rightarrow> Attachment" where
  "secondarySlot t = (if t = EffectTypeHDR then COLOR_ATTACHMENT3 else COLOR_ATTACHMENT2)"

text \<open>
  The textures a logged call writes: those attached to its draw buffers on a camera with
  the given HDR flag. A call aliases when the texture it reads is among them. The calls
  that a step adds to the log are those behind the length of the earlier log.
\<close>

definition writtenTextures :: "bool \<Rightarrow> GLCall \<Rightarrow> Texture list" where
  "writtenTextures h d = map Texture2D (List.map_filter (framebufferAttachments h) (targets d))"

definition aliases :: "bool \<Rightarrow> GLCall \<Rightarrow> bool" where
  "aliases h d = (\<exists>t \<in> set (writtenTextures h d). readTexture d = Some t)"

definition newCalls :: "Camera \<Rightarrow> Camera \<Rightarrow> GLCall list" where
  "newCalls c c' = drop (length (calls (gl c))) (calls (gl c'))"

subsection \<open>Example states\<close>

definition initialGL :: GLState where
  "initialGL =
     \<lparr>activeTexture0 = None, drawBuffers = [COLOR_ATTACHMENT0], boundShader = None,
      boundMesh = None, uniforms = (\<lambda>_. Map.empty), subroutine = Map.empty,
      glClearColor = (f32_zero, f32_zero, f32_zero, f32_zero),
      depthMask = True, depthTest = True, calls = []\<rparr>"

definition exampleCamera :: "RenderPath \<Rightarrow> bool \<Rightarrow> Camera" where
  "exampleCamera path h =
     \<lparr>textures = Map.empty, shaders = Map.empty, meshes = Map.empty, effects = [],
      deferredCache = [], forwardCache = [], framebuffer = None, gbuffer = None,
      projectionMatrix = replicate 16 f32_zero, viewMatrix = replicate 16 f32_zero,
      normalMatrix = replicate 9 f32_zero,
      clearColor = (f32_zero, f32_zero, f32_zero, f32_one),
      clearMode = ClearModeSkybox, renderPath = path, activeRenderPath = RenderPathForward,
      aspectRatio = f32_one, fov = f32_one, nearClip = f32_zero, farClip = f32_one,
      effectPass = 0, effectActiveType = EffectTypeLDR, hdr = h, orthographic = False,
      effectRenders = [], gl = initialGL\<rparr>"




definition failedFramebuffer :: AllocResults where
  "failedFramebuffer = \<lparr>framebufferAlloc = Some ''framebuffer incomplete'', gbufferAlloc = None\<rparr>"

definition failedGBuffer :: AllocResults where
  "failedGBuffer = \<lparr>framebufferAlloc = None, gbufferAlloc = Some ''gbuffer incomplete''\<rparr>"

definition allocated :: AllocResults where
  "allocated = \<lparr>framebufferAlloc = None, gbufferAlloc = None\<rparr>"

definition exampleComponents :: "Component list" where
  "exampleComponents =
     [DrawableComponent \<lparr>drawableHandle = 1, SupportsDeferred = True\<rparr>,
      OtherComponent 7,
      DrawableComponent \<lparr>drawableHandle = 2, SupportsDeferred = False\<rparr>,
      DrawableComponent \<lparr>drawableHandle = 3, SupportsDeferred = True\<rparr>]"

definition ldrOnePass :: Effect where
  "ldrOnePass = \<lparr>effectType = EffectTypeLDR, subPasses = 1\<rparr>"

definition ldrTwoPasses :: Effect where
  "ldrTwoPasses = \<lparr>effectType = EffectTypeLDR, subPasses = 2\<rparr>"

definition tonemapper :: Effect where
  "tonemapper = \<lparr>effectType = EffectTypeTonemapper, subPasses = 1\<rparr>"


definition occupiedSystem :: InstanceSystem where
  "occupiedSystem =
     \<lparr>objects = [1 \<mapsto> \<lparr>objectID = 1, objectName = ''camera''\<rparr>], nextField = 0\<rparr>"

definition wrappedSystem :: InstanceSystem where
  "wrappedSystem = \<lparr>objects = Map.empty, nextField = - 1\<rparr>"


section \<open>Auxiliary facts\<close>

lemmas gl_ops = ActivateTexture_def ApplyDrawBuffers_def ClearColor_def ClearBuffers_def
  ClearBufferFlags_def ShaderBind_def ShaderUnbind_def SetSubroutine_def SetUniform_def
  MeshBind_def MeshUnbind_def MeshDraw_def DepthMask_def EnableDepthTest_def DisableDepthTest_def
  glCalls_def

section \<open>Background clear: clear mode \<open>Nothing\<close>\<close>

text \<open>
  C8. With clear mode \<open>Nothing\<close>, \<open>clearBackground\<close> returns the camera and the
  graphics context exactly as it found them: no clear and no draw is issued, so no
  render-target buffer is written.
\<close>

theorem clearBackground_Nothing_unchanged:
  "clearMode c = ClearModeNothing \<Longrightarrow>
     clearBackground skybox c = c \<and> calls (gl (clearBackground skybox c)) = calls (gl c)"
  by (simp add: clearBackground_def)

theorem clearBackground_Nothing_unchanged_witness:
  "clearMode (exampleCamera RenderPathForward False\<lparr>clearMode := ClearModeNothing\<rparr>)
     = ClearModeNothing \<and>
   clearBackground None (exampleCamera RenderPathForward False\<lparr>clearMode := ClearModeNothing\<rparr>)
     = exampleCamera RenderPathForward False\<lparr>clearMode := ClearModeNothing\<rparr> \<and>
   calls (gl (clearBackground None
     (exampleCamera RenderPathForward False\<lparr>clearMode := ClearModeNothing\<rparr>))) = []"
  using clearBackground_Nothing_unchanged
    [of "exampleCamera RenderPathForward False\<lparr>clearMode := ClearModeNothing\<rparr>" None]
  by (simp add: exampleCamera_def initialGL_def)

text \<open>For contrast, clear mode \<open>Depth\<close> on the same camera does issue a clear.\<close>

lemma clearBackground_Depth_clears:
  "calls (gl (clearBackground None
     (exampleCamera RenderPathForward False\<lparr>clearMode := ClearModeDepth\<rparr>))) \<noteq> []"
  by (simp add: clearBackground_def exampleCamera_def initialGL_def gl_ops)

section \<open>Background clear: clear mode \<open>Skybox\<close>\<close>




section \<open>Pipeline set-up: failed allocations\<close>

text \<open>
  C9. If the allocation of the framebuffer fails, \<open>setupPipeline\<close> panics with that
  error; if the framebuffer is allocated and, on a deferred camera, the allocation of the
  G-buffer fails, it panics with that error. It never completes after a failed allocation:
  whenever it returns a camera, the framebuffer and (on a deferred camera) the G-buffer
  were allocated.
\<close>

theorem setupPipeline_alloc_failure_panics:
  "(framebufferAlloc res = Some err \<longrightarrow> setupPipeline sz res c = Inl err) \<and>
   (framebufferAlloc res = None \<and> renderPath c = RenderPathDeferred \<and> gbufferAlloc res = Some err
      \<longrightarrow> setupPipeline sz res c = Inl err) \<and>
   (\<forall>c'. setupPipeline sz res c = Inr c' \<longrightarrow>
      framebufferAlloc res = None \<and>
      (renderPath c = RenderPathDeferred \<longrightarrow> gbufferAlloc res = None))"
  by (simp add: setupPipeline_def Let_def split: option.splits)

theorem setupPipeline_alloc_failure_panics_witness:
  "framebufferAlloc failedFramebuffer = Some ''framebuffer incomplete'' \<and>
   setupPipeline (800, 600) failedFramebuffer (exampleCamera RenderPathForward True)
     = Inl ''framebuffer incomplete'' \<and>
   framebufferAlloc failedGBuffer = None \<and>
   renderPath (exampleCamera RenderPathDeferred True) = RenderPathDeferred \<and>
   gbufferAlloc failedGBuffer = Some ''gbuffer incomplete'' \<and>
   setupPipeline (800, 600) failedGBuffer (exampleCamera RenderPathDeferred True)
     = Inl ''gbuffer incomplete'' \<and>
   \<not> isl (setupPipeline (800, 600) allocated (exampleCamera RenderPathDeferred True)) \<and>
   framebufferAlloc allocated = None \<and> gbufferAlloc allocated = None"
  using setupPipeline_alloc_failure_panics
      [of failedFramebuffer "''framebuffer incomplete''" "(800, 600)"
          "exampleCamera RenderPathForward True"]
    setupPipeline_alloc_failure_panics
      [of failedGBuffer "''gbuffer incomplete''" "(800, 600)"
          "exampleCamera RenderPathDeferred True"]
    setupPipeline_alloc_failure_panics
      [of allocated "''''" "(800, 600)" "exampleCamera RenderPathDeferred True"]
  by (simp add: failedFramebuffer_def failedGBuffer_def allocated_def exampleCamera_def
        setupPipeline_def Let_def)

text \<open>
  A camera that \<open>setupPipeline\<close> returns has the attachment table
  \<open>framebufferAttachments\<close> of its HDR flag.
\<close>

lemma setupPipeline_attachments:
  "setupPipeline sz res c = Inr c' \<Longrightarrow>
     hdr c' = hdr c \<and>
     (\<exists>f. framebuffer c' = Some f \<and> attachments f = framebufferAttachments (hdr c))"
  by (auto simp: setupPipeline_def Let_def split: option.splits if_splits)

section \<open>Drawable classification cache\<close>

lemma collectDrawables_eq: "collectDrawables components acc = acc @ sceneDrawables components"
  by (induction components acc rule: collectDrawables.induct) (simp_all add: sceneDrawables_def)

lemma classifyDrawables_caches:
  "deferredCache (classifyDrawables ds c) = deferredCache c @ filter SupportsDeferred ds \<and>
   forwardCache (classifyDrawables ds c) = forwardCache c @ filter (\<lambda>d. \<not> SupportsDeferred d) ds"
  by (induction ds arbitrary: c) simp_all

text \<open>
  C6. Whatever the caches held before, after \<open>OnSceneGraphUpdate\<close> they hold exactly
  the drawable-capable components of the scene: on a forward camera all of them are in the
  forward cache and the deferred cache is empty; on a deferred camera the deferred cache
  holds those that report deferred support and the forward cache the others, both in scene
  order. Every scene drawable is in exactly one of the two caches.
\<close>

theorem OnSceneGraphUpdate_partition:
  "(renderPath c = RenderPathForward \<longrightarrow>
      forwardCache (OnSceneGraphUpdate components c) = sceneDrawables components \<and>
      deferredCache (OnSceneGraphUpdate components c) = []) \<and>
   (renderPath c = RenderPathDeferred \<longrightarrow>
      deferredCache (OnSceneGraphUpdate components c)
        = filter SupportsDeferred (sceneDrawables components) \<and>
      forwardCache (OnSceneGraphUpdate components c)
        = filter (\<lambda>d. \<not> SupportsDeferred d) (sceneDrawables components)) \<and>
   (\<forall>d \<in> set (sceneDrawables components).
      (d \<in> set (forwardCache (OnSceneGraphUpdate components c)))
        \<noteq> (d \<in> set (deferredCache (OnSceneGraphUpdate components c))))"
  by (cases "renderPath c")
     (auto simp: OnSceneGraphUpdate_def Let_def collectDrawables_eq classifyDrawables_caches)

theorem OnSceneGraphUpdate_partition_witness:
  "renderPath (exampleCamera RenderPathDeferred False) = RenderPathDeferred \<and>
   deferredCache (OnSceneGraphUpdate exampleComponents
       (exampleCamera RenderPathDeferred False
          \<lparr>forwardCache := [\<lparr>drawableHandle = 9, SupportsDeferred = True\<rparr>]\<rparr>))
     = [\<lparr>drawableHandle = 1, SupportsDeferred = True\<rparr>,
        \<lparr>drawableHandle = 3, SupportsDeferred = True\<rparr>] \<and>
   forwardCache (OnSceneGraphUpdate exampleComponents
       (exampleCamera RenderPathDeferred False
          \<lparr>forwardCache := [\<lparr>drawableHandle = 9, SupportsDeferred = True\<rparr>]\<rparr>))
     = [\<lparr>drawableHandle = 2, SupportsDeferred = False\<rparr>] \<and>
   renderPath (exampleCamera RenderPathForward False) = RenderPathForward \<and>
   forwardCache (OnSceneGraphUpdate exampleComponents (exampleCamera RenderPathForward False))
     = [\<lparr>drawableHandle = 1, SupportsDeferred = True\<rparr>,
        \<lparr>drawableHandle = 2, SupportsDeferred = False\<rparr>,
        \<lparr>drawableHandle = 3, SupportsDeferred = True\<rparr>] \<and>
   deferredCache (OnSceneGraphUpdate exampleComponents (exampleCamera RenderPathForward False))
     = [] \<and>
   \<lparr>drawableHandle = 2, SupportsDeferred = False\<rparr> \<in> set (sceneDrawables exampleComponents)"
  using OnSceneGraphUpdate_partition
      [of "exampleCamera RenderPathDeferred False
             \<lparr>forwardCache := [\<lparr>drawableHandle = 9, SupportsDeferred = True\<rparr>]\<rparr>"
          exampleComponents]
    OnSceneGraphUpdate_partition [of "exampleCamera RenderPathForward False" exampleComponents]
  by (simp add: exampleCamera_def exampleComponents_def sceneDrawables_def)

section \<open>Effect chain: one sub-pass\<close>

text \<open>Go's \<open>x%2 == 1\<close> holds exactly for the positive odd values of \<open>x\<close>.\<close>

lemma smod2_eq_1: "(k::int) smod 2 = 1 \<longleftrightarrow> 0 \<le> k \<and> odd k"
  by (auto simp: smod_int_alt_def sgn_if mod_2_eq_odd split: if_splits)

lemma EffectPass_fields [simp]:
  "effectActiveType (EffectPass c) = effectActiveType c"
  "hdr (EffectPass c) = hdr c"
  "effectPass (EffectPass c) = effectPass c + 1"
  "effectRenders (EffectPass c) = effectRenders c"
  "boundShader (gl (EffectPass c)) = boundShader (gl c)"
  "uniforms (gl (EffectPass c)) = uniforms (gl c)"
  by (simp_all add: EffectPass_def Let_def gl_ops)

lemma EffectPass_bindings:
  "activeTexture0 (gl (EffectPass c)) =
     (if effectActiveType c = EffectTypeHDR \<or> effectActiveType c = EffectTypeLDR then
        Some (Texture2D (if sint (effectPass c) smod 2 = 1 then secondaryBuffer (effectActiveType c)
                         else primaryBuffer (effectActiveType c)))
      else activeTexture0 (gl c))"
  "drawBuffers (gl (EffectPass c)) =
     (if effectActiveType c = EffectTypeHDR \<or> effectActiveType c = EffectTypeLDR then
        [if sint (effectPass c) smod 2 = 1 then primarySlot (effectActiveType c)
         else secondarySlot (effectActiveType c)]
      else drawBuffers (gl c))"
  by (simp_all add: EffectPass_def Let_def gl_ops primaryBuffer_def secondaryBuffer_def
        primarySlot_def secondarySlot_def)

lemma EffectPass_calls:
  "calls (gl (EffectPass c)) = calls (gl c) @
     [Draw CameraMeshEffect (activeTexture0 (gl (EffectPass c))) (drawBuffers (gl (EffectPass c)))
        (boundShader (gl c))
        (case boundShader (gl c) of None \<Rightarrow> Map.empty | Some s \<Rightarrow> uniforms (gl c) s)]"
  by (simp add: EffectPass_def Let_def gl_ops split: option.split)

lemma EffectPass_funpow_fields [simp]:
  "effectActiveType ((EffectPass ^^ n) c) = effectActiveType c"
  "hdr ((EffectPass ^^ n) c) = hdr c"
  "effectPass ((EffectPass ^^ n) c) = effectPass c + of_nat n"
  "effectRenders ((EffectPass ^^ n) c) = effectRenders c"
  by (induction n) simp_all




text \<open>On an HDR camera each slot holds the buffer of its name; the LDR slots do on any camera.\<close>

lemma slots_hold_buffers:
  "framebufferAttachments True (primarySlot t) = Some (primaryBuffer t)"
  "framebufferAttachments True (secondarySlot t) = Some (secondaryBuffer t)"
  "t \<noteq> EffectTypeHDR \<Longrightarrow> framebufferAttachments h (primarySlot t) = Some (primaryBuffer t)"
  "t \<noteq> EffectTypeHDR \<Longrightarrow> framebufferAttachments h (secondarySlot t) = Some (secondaryBuffer t)"
  by (simp_all add: framebufferAttachments_def primarySlot_def secondarySlot_def
        primaryBuffer_def secondaryBuffer_def Let_def)


lemma EffectPass_call_no_alias:
  assumes "effectActiveType c = EffectTypeHDR \<or> effectActiveType c = EffectTypeLDR"
  shows "\<not> aliases h
           (Draw CameraMeshEffect (activeTexture0 (gl (EffectPass c)))
              (drawBuffers (gl (EffectPass c))) sh us)"
  using assms
  by (auto simp: aliases_def writtenTextures_def EffectPass_bindings
        framebufferAttachments_def Let_def primaryBuffer_def secondaryBuffer_def
        primarySlot_def secondarySlot_def split: option.splits)

lemma EffectPass_funpow_calls:
  assumes "effectActiveType c = EffectTypeHDR \<or> effectActiveType c = EffectTypeLDR"
  shows "\<exists>ds. calls (gl ((EffectPass ^^ n) c)) = calls (gl c) @ ds \<and> length ds = n \<and>
           (\<forall>d \<in> set ds. is_Draw d \<and> drawMesh d = CameraMeshEffect \<and>
              readTexture d \<noteq> None \<and> \<not> aliases h d)"
proof (induction n)
  case 0
  then show ?case by simp
next
  case (Suc n)
  then obtain ds where ds: "calls (gl ((EffectPass ^^ n) c)) = calls (gl c) @ ds"
    "length ds = n"
    "\<forall>d \<in> set ds. is_Draw d \<and> drawMesh d = CameraMeshEffect \<and>
       readTexture d \<noteq> None \<and> \<not> aliases h d"
    by blast
  let ?c = "(EffectPass ^^ n) c"
  have dom: "effectActiveType ?c = EffectTypeHDR \<or> effectActiveType ?c = EffectTypeLDR"
    using assms by simp
  obtain d where d: "calls (gl (EffectPass ?c)) = calls (gl ?c) @ [d]"
    "d = Draw CameraMeshEffect (activeTexture0 (gl (EffectPass ?c)))
           (drawBuffers (gl (EffectPass ?c))) (boundShader (gl ?c))
           (case boundShader (gl ?c) of None \<Rightarrow> Map.empty | Some s \<Rightarrow> uniforms (gl ?c) s)"
    using EffectPass_calls [of ?c] by blast
  have "\<not> aliases h d"
    unfolding d(2) by (rule EffectPass_call_no_alias [OF dom])
  moreover have "is_Draw d" "drawMesh d = CameraMeshEffect" "readTexture d \<noteq> None"
    using dom by (auto simp: d(2) EffectPass_bindings)
  ultimately show ?case
    using ds d(1) by (intro exI [of _ "ds @ [d]"]) auto
qed

text \<open>
  C2. In the HDR and in the LDR domain, any number \<open>n\<close> of sub-passes adds exactly
  \<open>n\<close> calls to the log; each of them is a draw of the effect quad with a read texture
  bound, and the texture it reads is not attached to any of its draw buffers, whichever
  of the two attachment tables (with or without the HDR buffers) the framebuffer has.
\<close>

theorem EffectPass_no_alias:
  "effectActiveType c = EffectTypeHDR \<or> effectActiveType c = EffectTypeLDR \<Longrightarrow>
     take (length (calls (gl c))) (calls (gl ((EffectPass ^^ n) c))) = calls (gl c) \<and>
     length (newCalls c ((EffectPass ^^ n) c)) = n \<and>
     (\<forall>d \<in> set (newCalls c ((EffectPass ^^ n) c)).
        is_Draw d \<and> drawMesh d = CameraMeshEffect \<and> readTexture d \<noteq> None \<and>
        \<not> aliases h d)"
  using EffectPass_funpow_calls [of c n h] by (auto simp: newCalls_def)

lemma EffectPass_funpow_eval: "(EffectPass ^^ Suc n) c = (EffectPass ^^ n) (EffectPass c)"
  by (simp add: funpow_swap1)

theorem EffectPass_no_alias_witness:
  "effectActiveType (exampleCamera RenderPathForward True\<lparr>effectActiveType := EffectTypeHDR\<rparr>)
     = EffectTypeHDR \<and>
   newCalls (exampleCamera RenderPathForward True\<lparr>effectActiveType := EffectTypeHDR\<rparr>)
     ((EffectPass ^^ 3)
        (exampleCamera RenderPathForward True\<lparr>effectActiveType := EffectTypeHDR\<rparr>)) =
     [Draw CameraMeshEffect (Some (Texture2D CameraTextureHDR0)) [COLOR_ATTACHMENT3] None Map.empty,
      Draw CameraMeshEffect (Some (Texture2D CameraTextureHDR1)) [COLOR_ATTACHMENT1] None Map.empty,
      Draw CameraMeshEffect (Some (Texture2D CameraTextureHDR0)) [COLOR_ATTACHMENT3] None Map.empty] \<and>
   writtenTextures True
     (Draw CameraMeshEffect (Some (Texture2D CameraTextureHDR0)) [COLOR_ATTACHMENT3] None Map.empty)
     = [Texture2D CameraTextureHDR1] \<and>
   \<not> aliases True
     (Draw CameraMeshEffect (Some (Texture2D CameraTextureHDR0)) [COLOR_ATTACHMENT3] None Map.empty)"
  using EffectPass_no_alias
    [of "exampleCamera RenderPathForward True\<lparr>effectActiveType := EffectTypeHDR\<rparr>" 3 True]
  by (simp add: numeral_3_eq_3 EffectPass_funpow_eval newCalls_def EffectPass_calls
        EffectPass_bindings exampleCamera_def initialGL_def smod2_eq_1 primaryBuffer_def
        secondaryBuffer_def primarySlot_def secondarySlot_def writtenTextures_def
        framebufferAttachments_def Let_def)

section \<open>Effect chain: the passes of one effect and the chain\<close>

lemma startEffectPass_fields [simp]:
  "effectActiveType (startEffectPass c) = effectActiveType c"
  "hdr (startEffectPass c) = hdr c"
  "effectPass (startEffectPass c) = 0"
  "effectRenders (startEffectPass c) = effectRenders c"
  "calls (gl (startEffectPass c)) = calls (gl c)"
  "boundShader (gl (startEffectPass c)) = boundShader (gl c)"
  "uniforms (gl (startEffectPass c)) = uniforms (gl c)"
  by (simp_all add: startEffectPass_def Let_def gl_ops)


lemma endEffectPass_fields [simp]:
  "effectActiveType (endEffectPass c) = effectActiveType c"
  "hdr (endEffectPass c) = hdr c"
  "effectRenders (endEffectPass c) = effectRenders c"
  "drawBuffers (gl (endEffectPass c)) = [if hdr c then COLOR_ATTACHMENT1 else COLOR_ATTACHMENT0]"
  by (simp_all add: endEffectPass_def Let_def gl_ops)



lemma Render_fields [simp]:
  "effectActiveType (Render e c) = effectActiveType c"
  "hdr (Render e c) = hdr c"
  "effectRenders (Render e c) = effectRenders c @ [(e, effectActiveType c)]"
  "effectPass (Render e c) = effectPass c + of_nat (subPasses e)"
  by (simp_all add: Render_def)

lemma renderEffectHDR_fields [simp]:
  "hdr (renderEffectHDR e c) = hdr c"
  "effectActiveType (renderEffectHDR e c) =
     (if effectType e = EffectTypeTonemapper then EffectTypeLDR else effectActiveType c)"
  "effectRenders (renderEffectHDR e c) = effectRenders c @
     [(e, if effectType e = EffectTypeTonemapper then EffectTypeTonemapper
          else effectActiveType c)]"
  by (simp_all add: renderEffectHDR_def Let_def)



lemma glCalls_fields [simp]:
  "hdr (glCalls fs c) = hdr c"
  "effects (glCalls fs c) = effects c"
  "effectActiveType (glCalls fs c) = effectActiveType c"
  "effectRenders (glCalls fs c) = effectRenders c"
  by (simp_all add: glCalls_def)


lemmas effect_eval = renderEffects_def renderEffectHDR_def renderEffectLDR_def Render_def
  startEffectPass_def endEffectPass_def EffectPass_def Let_def gl_ops exampleCamera_def
  initialGL_def smod2_eq_1





text \<open>
  The passes of one effect in the HDR or the LDR domain, for any number \<open>m + 1\<close> of
  sub-passes below \<open>2^31\<close>. The last sub-pass draws into the secondary slot when the
  number of sub-passes is odd and into the primary slot when it is even;
  \<open>endEffectPass\<close> adds no call in the first case and, in the second, one draw with
  the copy shader that reads the secondary buffer.
\<close>

lemma sint_counter: "n < 2 ^ 31 \<Longrightarrow> sint (of_nat n :: int32) = int n"
  by (simp add: signed_of_nat signed_take_bit_int_eq_self)

lemma endEffectPass_calls:
  "calls (gl (endEffectPass c)) = calls (gl c) @
     (if effectActiveType c = EffectTypeTonemapper \<or> sint (effectPass c) smod 2 = 1 then []
      else [Draw CameraMeshEffect (Some (Texture2D (secondaryBuffer (effectActiveType c))))
              [if hdr c then COLOR_ATTACHMENT1 else COLOR_ATTACHMENT0]
              (Some CameraShaderCopy) (uniforms (gl c) CameraShaderCopy)])"
  by (simp add: endEffectPass_def Let_def gl_ops secondaryBuffer_def)

lemma effect_passes_result:
  assumes dom: "effectActiveType c = EffectTypeHDR \<or> effectActiveType c = EffectTypeLDR"
    and n: "subPasses e = Suc m" "Suc m < 2 ^ 31"
  shows "let cr = Render e (startEffectPass c) in
           is_Draw (last (calls (gl cr))) \<and>
           targets (last (calls (gl cr))) =
             [if even m then secondarySlot (effectActiveType c)
              else primarySlot (effectActiveType c)] \<and>
           calls (gl (endEffectPass cr)) = calls (gl cr) @
             (if even m then []
              else [Draw CameraMeshEffect
                      (Some (Texture2D (secondaryBuffer (effectActiveType c))))
                      [if hdr c then COLOR_ATTACHMENT1 else COLOR_ATTACHMENT0]
                      (Some CameraShaderCopy) (uniforms (gl cr) CameraShaderCopy)])"
proof -
  define c' where "c' = (startEffectPass c)\<lparr>effectRenders :=
    effectRenders (startEffectPass c) @ [(e, effectActiveType (startEffectPass c))]\<rparr>"
  define cm where "cm = (EffectPass ^^ m) c'"
  have cr: "Render e (startEffectPass c) = EffectPass cm"
    by (simp add: Render_def n(1) c'_def cm_def)
  have m: "sint (effectPass cm) = int m"
    using n(2) by (simp add: cm_def c'_def sint_counter)
  have Sm: "sint (effectPass (EffectPass cm)) = int (Suc m)"
    using sint_counter [OF n(2)] by (simp add: cm_def c'_def add.commute)
  have ty: "effectActiveType cm = effectActiveType c"
    by (simp add: cm_def c'_def)
  have h: "hdr cm = hdr c"
    by (simp add: cm_def c'_def)
  have last: "last (calls (gl (EffectPass cm))) =
      Draw CameraMeshEffect (activeTexture0 (gl (EffectPass cm)))
        (drawBuffers (gl (EffectPass cm))) (boundShader (gl cm))
        (case boundShader (gl cm) of None \<Rightarrow> Map.empty | Some s \<Rightarrow> uniforms (gl cm) s)"
    by (simp add: EffectPass_calls)
  have tgt: "drawBuffers (gl (EffectPass cm)) =
      [if even m then secondarySlot (effectActiveType c) else primarySlot (effectActiveType c)]"
    using dom by (auto simp: EffectPass_bindings ty m smod2_eq_1)
  have copy: "calls (gl (endEffectPass (EffectPass cm))) = calls (gl (EffectPass cm)) @
      (if even m then []
       else [Draw CameraMeshEffect (Some (Texture2D (secondaryBuffer (effectActiveType c))))
               [if hdr c then COLOR_ATTACHMENT1 else COLOR_ATTACHMENT0]
               (Some CameraShaderCopy) (uniforms (gl (EffectPass cm)) CameraShaderCopy)])"
    using dom by (auto simp: endEffectPass_calls ty h Sm smod2_eq_1 simp del: EffectPass_fields(3))
  show ?thesis
    unfolding Let_def cr using last tgt copy by simp
qed

text \<open>
  C1, at a camera without HDR and an LDR effect with one sub-pass: the only call of the
  whole chain is the sub-pass draw, which writes the secondary buffer of the LDR domain;
  \<open>endEffectPass\<close> finds the counter odd and copies nothing, so the result is not in
  the primary buffer. With two sub-passes the second draw puts the result into the primary
  slot, and \<open>endEffectPass\<close>, finding the counter even, then copies the secondary
  buffer, which holds the output of the first sub-pass, over it.
\<close>

theorem effect_result_not_in_primary:
  "calls (gl (renderEffects (exampleCamera RenderPathForward False\<lparr>effects := [ldrOnePass]\<rparr>))) =
     [Draw CameraMeshEffect (Some (Texture2D CameraTextureLDR0)) [COLOR_ATTACHMENT2] None Map.empty] \<and>
   writtenTextures False
     (Draw CameraMeshEffect (Some (Texture2D CameraTextureLDR0)) [COLOR_ATTACHMENT2] None Map.empty)
     = [Texture2D (secondaryBuffer EffectTypeLDR)] \<and>
   calls (gl (renderEffects (exampleCamera RenderPathForward False\<lparr>effects := [ldrTwoPasses]\<rparr>))) =
     [Draw CameraMeshEffect (Some (Texture2D CameraTextureLDR0)) [COLOR_ATTACHMENT2] None Map.empty,
      Draw CameraMeshEffect (Some (Texture2D CameraTextureLDR1)) [COLOR_ATTACHMENT0] None Map.empty,
      Draw CameraMeshEffect (Some (Texture2D CameraTextureLDR1)) [COLOR_ATTACHMENT0]
        (Some CameraShaderCopy) Map.empty]"
  by (simp add: effect_eval ldrOnePass_def ldrTwoPasses_def numeral_2_eq_2
        writtenTextures_def framebufferAttachments_def secondaryBuffer_def)

text \<open>
  C5, on an HDR camera with the chain Tonemapper, LDR effect: after the LDR effect the
  active effect type is LDR, whose primary slot is \<open>COLOR_ATTACHMENT0\<close>, but the draw
  target left by \<open>endEffectPass\<close> is \<open>COLOR_ATTACHMENT1\<close>, the slot of the
  HDR-primary buffer. With two sub-passes in the LDR effect, the copy of
  \<open>endEffectPass\<close> reads the LDR-secondary buffer and draws into that HDR slot.
\<close>

theorem endEffectPass_target_after_Tonemapper:
  "hdr (exampleCamera RenderPathForward True\<lparr>effects := [tonemapper, ldrOnePass]\<rparr>) \<and>
   effectActiveType
     (renderEffects (exampleCamera RenderPathForward True\<lparr>effects := [tonemapper, ldrOnePass]\<rparr>))
     = EffectTypeLDR \<and>
   drawBuffers (gl
     (renderEffects (exampleCamera RenderPathForward True\<lparr>effects := [tonemapper, ldrOnePass]\<rparr>)))
     = [COLOR_ATTACHMENT1] \<and>
   primarySlot EffectTypeLDR = COLOR_ATTACHMENT0 \<and>
   framebufferAttachments True COLOR_ATTACHMENT1 = Some CameraTextureHDR0 \<and>
   calls (gl
     (renderEffects (exampleCamera RenderPathForward True\<lparr>effects := [tonemapper, ldrTwoPasses]\<rparr>)))
     = [Draw CameraMeshEffect (Some (Texture2D CameraTextureHDR0)) [COLOR_ATTACHMENT0] None Map.empty,
        Draw CameraMeshEffect (Some (Texture2D CameraTextureLDR0)) [COLOR_ATTACHMENT2] None Map.empty,
        Draw CameraMeshEffect (Some (Texture2D CameraTextureLDR1)) [COLOR_ATTACHMENT0] None Map.empty,
        Draw CameraMeshEffect (Some (Texture2D CameraTextureLDR1)) [COLOR_ATTACHMENT1]
          (Some CameraShaderCopy) Map.empty]"
  by (simp add: effect_eval tonemapper_def ldrOnePass_def ldrTwoPasses_def numeral_2_eq_2
        primarySlot_def framebufferAttachments_def)

section \<open>Instance identifiers\<close>

lemma nextIDLoop_returns:
  assumes "nextIDLoop s ident ok = Some y"
  shows "ok \<longrightarrow> objects s (nextField s + 1) = None"
  using assms
proof (rule nextIDLoop.raw_induct
    [where P = "\<lambda>s ident ok y. ok \<longrightarrow> objects s (nextField s + 1) = None", rotated])
  fix loop :: "InstanceSystem \<Rightarrow> int32 \<Rightarrow> bool \<Rightarrow> int32 option"
  fix s ident ok y
  assume ih: "\<And>s ident ok y. loop s ident ok = Some y \<Longrightarrow> ok \<longrightarrow> objects s (nextField s + 1) = None"
  assume body: "(if ok then let inner = nextField s + 1 in loop s ident (objects s inner \<noteq> None)
                 else Some ident) = Some y"
  show "ok \<longrightarrow> objects s (nextField s + 1) = None"
  proof
    assume ok
    with body have "loop s ident (objects s (nextField s + 1) \<noteq> None) = Some y"
      by (simp add: Let_def)
    from ih [OF this] show "objects s (nextField s + 1) = None"
      by blast
  qed
qed

lemma nextIDLoop_assigned_diverges:
  "objects s (nextField s + 1) \<noteq> None \<Longrightarrow> nextIDLoop s ident True = None"
  using nextIDLoop_returns [of s ident True] by (cases "nextIDLoop s ident True") auto

lemma nextIDLoop_free: "nextIDLoop s ident False = Some ident"
  by (subst nextIDLoop.simps) simp

lemma nextID_candidate_assigned:
  "card (dom (objects s)) < MaxInt32 \<Longrightarrow> objects s (nextField s + 1) \<noteq> None \<Longrightarrow>
     nextID s = None"
  by (simp add: nextID_def Let_def nextIDLoop_assigned_diverges)

lemma nextID_candidate_free:
  "card (dom (objects s)) < MaxInt32 \<Longrightarrow> objects s (nextField s + 1) = None \<Longrightarrow>
     nextID s = Some (Inr (nextField s + 1), s\<lparr>nextField := nextField s + 1\<rparr>)"
  by (simp add: nextID_def Let_def nextIDLoop_free)

text \<open>
  C10, at a table that holds one object under the identifier 1 while the last identifier
  handed out is 0: the table is far from full and the candidate identifier is taken, and
  \<open>nextID\<close> does not return, nor does \<open>Assign\<close>. At an empty table whose last
  identifier is \<open>-1\<close>, \<open>nextID\<close> returns the identifier 0.
\<close>

theorem nextID_never_returns:
  "card (dom (objects occupiedSystem)) < 2 ^ 31 - 1 \<and>
   objects occupiedSystem (nextField occupiedSystem + 1) \<noteq> None \<and>
   nextID occupiedSystem = None \<and>
   Assign (Some \<lparr>objectID = 0, objectName = ''mesh''\<rparr>) occupiedSystem = None \<and>
   card (dom (objects wrappedSystem)) < 2 ^ 31 - 1 \<and>
   nextID wrappedSystem = Some (Inr 0, wrappedSystem\<lparr>nextField := 0\<rparr>)"
proof -
  have small: "card (dom (objects occupiedSystem)) < MaxInt32"
    "card (dom (objects wrappedSystem)) < MaxInt32"
    by (simp_all add: occupiedSystem_def wrappedSystem_def MaxInt32_def)
  have taken: "objects occupiedSystem (nextField occupiedSystem + 1) \<noteq> None"
    by (simp add: occupiedSystem_def)
  have free: "objects wrappedSystem (nextField wrappedSystem + 1) = None"
    by (simp add: wrappedSystem_def)
  have stuck: "nextID occupiedSystem = None"
    by (rule nextID_candidate_assigned [OF small(1) taken])
  have zero: "nextID wrappedSystem = Some (Inr 0, wrappedSystem\<lparr>nextField := 0\<rparr>)"
    using nextID_candidate_free [OF small(2) free] by (simp add: wrappedSystem_def)
  have "Assign (Some \<lparr>objectID = 0, objectName = ''mesh''\<rparr>) occupiedSystem = None"
    by (simp add: Assign_def stuck)
  with small taken stuck zero show ?thesis
    by (simp add: MaxInt32_def)
qed

end
